theory Spec2Isabelle
  imports Main "HOL-Library.Word"
begin

section \<open>The HTTP plugin's guest binding (plugins/http/guest-js/index.ts)\<close>

text \<open>
  The binding forwards a fetch call to the native engine through \<^verbatim>\<open>invoke\<close> and
  rebuilds a \<^verbatim>\<open>Response\<close> from the replies. The model is a shallow embedding of
  \<^verbatim>\<open>fetch\<close>: the engine and the host runtime (the constructors \<^verbatim>\<open>Request\<close>,
  \<^verbatim>\<open>Response\<close> and \<^verbatim>\<open>Headers\<close>) are parameters, every \<^verbatim>\<open>throw\<close> and
  every rejected promise is a value \<open>Inl\<close>, and the calls that reach the engine are
  returned as a list in the order in which they are made.
\<close>

subsection \<open>Data\<close>

type_synonym byte = "8 word"

text \<open>\<^verbatim>\<open>ProxyConfig\<close>, \<^verbatim>\<open>Proxy\<close> and \<^verbatim>\<open>ClientOptions\<close> (lines 36 to 87).\<close>

record BasicAuth =
  username :: string
  password :: string

record ProxyConfig =
  proxy_url :: string
  basicAuth :: "BasicAuth option"
  noProxy :: "string option"

datatype proxy_setting = Proxy_string string | Proxy_config ProxyConfig

record Proxy =
  proxy_all :: "proxy_setting option"
  proxy_http :: "proxy_setting option"
  proxy_https :: "proxy_setting option"

record ClientOptions =
  maxRedirections :: "nat option"
  connectTimeout :: "nat option"
  proxy :: "Proxy option"

text \<open>
  A value that is thrown, or that a promise rejects with. \<open>Error m\<close> is the object
  \<^verbatim>\<open>new Error(m)\<close> that the binding creates itself; \<open>Rejected p\<close> is the payload
  \<open>p\<close> with which a promise of \<^verbatim>\<open>invoke\<close> rejected, which the \<^verbatim>\<open>await\<close>
  rethrows as it is; \<open>Host_exception x\<close> is an exception \<open>x\<close> raised inside the
  host runtime (a \<^verbatim>\<open>TypeError\<close> of a constructor, for instance), which passes
  through \<^verbatim>\<open>fetch\<close> as it is.
\<close>

type_synonym payload = string

type_synonym exception = string

datatype thrown = Error string | Rejected payload | Host_exception string

text \<open>
  An \<^verbatim>\<open>AbortSignal\<close>. The property \<^verbatim>\<open>aborted\<close> is read at three places of
  \<^verbatim>\<open>fetch\<close> and may change while the function is suspended in an \<^verbatim>\<open>await\<close>,
  so the signal is the number of the first program point at which it is active
  (\<open>None\<close>: it never is). The program points are
  \<^item> 0: entry of \<^verbatim>\<open>fetch\<close> (the check of line 118);
  \<^item> 1: after \<^verbatim>\<open>await req.arrayBuffer()\<close> (the check of line 142);
  \<^item> 2: after the await of \<^verbatim>\<open>plugin:http|fetch\<close> (the check of line 159);
  \<^item> 3: after the await of \<^verbatim>\<open>plugin:http|fetch_send\<close>;
  \<^item> 4: after the await of \<^verbatim>\<open>plugin:http|fetch_read_body\<close>.
  A signal that is active stays active, and its \<^verbatim>\<open>abort\<close> event is dispatched
  once, during the suspension that ends at the program point \<open>fires\<close>.
\<close>

datatype abort_signal = AbortSignal (fires: "nat option")

definition aborted :: "abort_signal \<Rightarrow> nat \<Rightarrow> bool" where
  "aborted s t = (case fires s of None \<Rightarrow> False | Some k \<Rightarrow> k \<le> t)"

definition abort_event :: "abort_signal \<Rightarrow> nat \<Rightarrow> bool" where
  "abort_event s t = (fires s = Some t)"

text \<open>\<^verbatim>\<open>RequestInit\<close>: the fields the host's \<^verbatim>\<open>Request\<close> reads, and \<^verbatim>\<open>signal\<close>.\<close>

record RequestInit =
  init_method :: "string option"
  init_headers :: "(string \<times> string) list option"
  init_body :: "byte list option"
  signal :: "abort_signal option"

text \<open>
  A constructed \<^verbatim>\<open>Request\<close>, as far as \<^verbatim>\<open>fetch\<close> reads it: \<^verbatim>\<open>req.method\<close>,
  \<^verbatim>\<open>req.url\<close>, the pairs that \<^verbatim>\<open>req.headers.entries()\<close> yields, in the order
  in which it yields them, and the outcome of \<^verbatim>\<open>await req.arrayBuffer()\<close>.
\<close>

record Request =
  req_method :: string
  req_url :: string
  req_headers_entries :: "(string \<times> string) list"
  req_arrayBuffer :: "exception + byte list"

text \<open>The first argument of \<^verbatim>\<open>fetch\<close>: \<^verbatim>\<open>URL | Request | string\<close>.\<close>

datatype fetch_input = Input_URL string | Input_Request Request | Input_string string

text \<open>The object \<^verbatim>\<open>clientConfig\<close> sent with \<^verbatim>\<open>plugin:http|fetch\<close> (lines 147 to 153).\<close>

record clientConfig =
  cfg_method :: string
  cfg_url :: string
  cfg_headers :: "(string \<times> string) list"
  cfg_data :: "int list option"
  cfg_options :: "ClientOptions option"

text \<open>\<^verbatim>\<open>FetchSendResponse\<close> (lines 168 to 174).\<close>

record FetchSendResponse =
  fsr_status :: nat
  fsr_statusText :: string
  fsr_headers :: "(string \<times> string) list"
  fsr_url :: string
  fsr_rid :: nat

text \<open>The reply of \<^verbatim>\<open>plugin:http|fetch_read_body\<close>: \<^verbatim>\<open>ArrayBuffer | number[]\<close>.\<close>

datatype body_reply = ArrayBuffer "byte list" | Array "int list"

text \<open>The first argument of \<^verbatim>\<open>new Response\<close>: an \<^verbatim>\<open>ArrayBuffer\<close>, a \<^verbatim>\<open>Uint8Array\<close>, or \<^verbatim>\<open>null\<close> (\<open>None\<close>).\<close>

datatype body_init = Body_ArrayBuffer "byte list" | Body_Uint8Array "byte list"

text \<open>A \<^verbatim>\<open>Headers\<close> object, by the list of pairs it holds.\<close>

datatype Headers = Headers "(string \<times> string) list"

text \<open>A \<^verbatim>\<open>Response\<close>, by the properties a caller reads.\<close>

record Response =
  res_status :: nat
  res_statusText :: string
  res_body :: "byte list option"
  res_url :: string
  res_headers :: Headers

text \<open>
  The host runtime: the three constructors \<^verbatim>\<open>fetch\<close> calls. Each may throw.
  \<open>new_Response b st txt\<close> is \<^verbatim>\<open>new Response(b, { status: st, statusText: txt })\<close>.
\<close>

record host =
  new_Request :: "fetch_input \<Rightarrow> RequestInit option \<Rightarrow> exception + Request"
  new_Response :: "body_init option \<Rightarrow> nat \<Rightarrow> string \<Rightarrow> exception + Response"
  new_Headers :: "(string \<times> string) list \<Rightarrow> exception + Headers"

text \<open>
  The engine behind \<^verbatim>\<open>invoke\<close>: for each command that \<^verbatim>\<open>fetch\<close> awaits, the
  payload its promise rejects with (\<open>Inl\<close>) or the value it resolves to. The
  promise of \<^verbatim>\<open>plugin:http|fetch_cancel\<close> is never awaited, so its outcome is not
  part of the engine seen by \<^verbatim>\<open>fetch\<close>.
\<close>

record engine =
  plugin_http_fetch :: "clientConfig \<Rightarrow> payload + nat"
  plugin_http_fetch_send :: "nat \<Rightarrow> payload + FetchSendResponse"
  plugin_http_fetch_read_body :: "nat \<Rightarrow> payload + body_reply"

text \<open>A call of \<^verbatim>\<open>invoke\<close> that reaches the engine, with its argument.\<close>

datatype engine_call =
    Fetch clientConfig
  | Fetch_cancel nat
  | Fetch_send nat
  | Fetch_read_body nat

subsection \<open>Constants and string operations\<close>

definition ERROR_REQUEST_CANCELLED :: string where
  "ERROR_REQUEST_CANCELLED = ''Request canceled''"

definition UNSAFE_HEADER_PREFIX :: string where
  "UNSAFE_HEADER_PREFIX = ''http_unsafe_header_''"

text \<open>\<^verbatim>\<open>s.startsWith(p)\<close> and \<^verbatim>\<open>s.substring(n)\<close> of JavaScript strings.\<close>

definition startsWith :: "string \<Rightarrow> string \<Rightarrow> bool" where
  "startsWith s p = (take (length p) s = p)"

definition substring :: "string \<Rightarrow> nat \<Rightarrow> string" where
  "substring s n = drop n s"

subsection \<open>The parts of \<^verbatim>\<open>fetch\<close>\<close>

text \<open>\<^verbatim>\<open>init?.signal\<close> (line 117) and \<^verbatim>\<open>signal?.aborted\<close> at a program point.\<close>

definition init_signal :: "RequestInit option \<Rightarrow> abort_signal option" where
  "init_signal init = (case init of None \<Rightarrow> None | Some i \<Rightarrow> signal i)"

definition signal_aborted :: "abort_signal option \<Rightarrow> nat \<Rightarrow> bool" where
  "signal_aborted sig t = (case sig of None \<Rightarrow> False | Some s \<Rightarrow> aborted s t)"

text \<open>
  The listener of line 166: registered on a signal that is present, it calls
  \<^verbatim>\<open>abort()\<close>, that is \<^verbatim>\<open>invoke('plugin:http|fetch_cancel', { rid })\<close>, when the
  \<^verbatim>\<open>abort\<close> event is dispatched. \<open>listener sig rid t\<close> is the list of engine calls
  it makes during the suspension that ends at program point \<open>t\<close>. A call that it
  makes after the promise of \<^verbatim>\<open>fetch\<close> has settled is not part of the result
  of \<^verbatim>\<open>fetch\<close>.
\<close>

definition listener :: "abort_signal option \<Rightarrow> nat \<Rightarrow> nat \<Rightarrow> engine_call list" where
  "listener sig rid t =
     (case sig of None \<Rightarrow> []
      | Some s \<Rightarrow> if abort_event s t then [Fetch_cancel rid] else [])"

text \<open>
  \<^verbatim>\<open>data\<close> (lines 124 and 125):
  \<^verbatim>\<open>buffer.byteLength !== 0 ? Array.from(new Uint8Array(buffer)) : null\<close>.
\<close>

definition request_data :: "byte list \<Rightarrow> int list option" where
  "request_data buffer = (if length buffer \<noteq> 0 then Some (map uint buffer) else None)"

text \<open>
  The loop of lines 127 to 139 over \<^verbatim>\<open>req.headers.entries()\<close>; the second argument
  is \<^verbatim>\<open>mappedHeaders\<close>, to which each iteration pushes one pair.
\<close>

fun mappedHeaders_loop ::
  "(string \<times> string) list \<Rightarrow> (string \<times> string) list \<Rightarrow> (string \<times> string) list" where
  "mappedHeaders_loop [] mappedHeaders = mappedHeaders"
| "mappedHeaders_loop ((key, value) # entries) mappedHeaders =
     (let key' = (if startsWith key UNSAFE_HEADER_PREFIX
                  then substring key (length UNSAFE_HEADER_PREFIX) else key)
      in mappedHeaders_loop entries (mappedHeaders @ [(key', value)]))"

definition mappedHeaders :: "Request \<Rightarrow> (string \<times> string) list" where
  "mappedHeaders req = mappedHeaders_loop (req_headers_entries req) []"

text \<open>
  The first argument of \<^verbatim>\<open>new Response\<close> (lines 194 to 198). \<^verbatim>\<open>new Uint8Array(body)\<close>
  of a \<^verbatim>\<open>number[]\<close> takes each number modulo 256.
\<close>

definition response_body :: "body_reply \<Rightarrow> body_init option" where
  "response_body body =
     (case body of
        ArrayBuffer bs \<Rightarrow>
          if length bs \<noteq> 0 then Some (Body_ArrayBuffer bs) else None
      | Array ns \<Rightarrow>
          if length ns > 0 then Some (Body_Uint8Array (map word_of_int ns)) else None)"

subsection \<open>\<^verbatim>\<open>fetch\<close> (lines 111 to 217)\<close>

text \<open>
  The result is the list of the calls that reached the engine, in order, and the
  outcome of the promise: \<open>Inl\<close> what it rejects with, \<open>Inr\<close> the response.
\<close>

definition fetch ::
  "host \<Rightarrow> engine \<Rightarrow> fetch_input \<Rightarrow> RequestInit option \<Rightarrow> ClientOptions option
     \<Rightarrow> engine_call list \<times> (thrown + Response)" where
  "fetch h eng input init options =
    (let sig = init_signal init in
     if signal_aborted sig 0 then ([], Inl (Error ERROR_REQUEST_CANCELLED))
     else
      (case new_Request h input init of
         Inl x \<Rightarrow> ([], Inl (Host_exception x))
       | Inr req \<Rightarrow>
      (case req_arrayBuffer req of
         Inl x \<Rightarrow> ([], Inl (Host_exception x))
       | Inr buffer \<Rightarrow>
      (let data = request_data buffer;
           hdrs = mappedHeaders req
       in
       if signal_aborted sig 1 then ([], Inl (Error ERROR_REQUEST_CANCELLED))
       else
        (let cfg = \<lparr> cfg_method = req_method req, cfg_url = req_url req,
                     cfg_headers = hdrs, cfg_data = data, cfg_options = options \<rparr>
         in
        (case plugin_http_fetch eng cfg of
           Inl e \<Rightarrow> ([Fetch cfg], Inl (Rejected e))
         | Inr rid \<Rightarrow>
         if signal_aborted sig 2
         then ([Fetch cfg, Fetch_cancel rid], Inl (Error ERROR_REQUEST_CANCELLED))
         else
          (let calls3 = [Fetch cfg, Fetch_send rid] @ listener sig rid 3 in
          (case plugin_http_fetch_send eng rid of
             Inl e \<Rightarrow> (calls3, Inl (Rejected e))
           | Inr r \<Rightarrow>
          (let calls4 = calls3 @ [Fetch_read_body (fsr_rid r)] @ listener sig rid 4 in
          (case plugin_http_fetch_read_body eng (fsr_rid r) of
             Inl e \<Rightarrow> (calls4, Inl (Rejected e))
           | Inr body \<Rightarrow>
          (case new_Response h (response_body body) (fsr_status r) (fsr_statusText r) of
             Inl x \<Rightarrow> (calls4, Inl (Host_exception x))
           | Inr res \<Rightarrow>
          (case new_Headers h (fsr_headers r) of
             Inl x \<Rightarrow> (calls4, Inl (Host_exception x))
           | Inr hs \<Rightarrow>
               (calls4, Inr (res \<lparr> res_url := fsr_url r, res_headers := hs \<rparr>))))))))))))))"

subsection \<open>A concrete host and a concrete engine\<close>

text \<open>
  A host that follows the Fetch standard where the examples need it. Its
  \<^verbatim>\<open>Request\<close> constructor starts from the request, the \<^verbatim>\<open>URL\<close> object or the
  string given as input, then takes method, headers and body from the init object:
  \<^item> a string is parsed as an absolute http or https url (scheme and host in lower
    case, an empty path becomes \<^verbatim>\<open>/\<close>), and is a \<^verbatim>\<open>TypeError\<close> otherwise; the
    \<^verbatim>\<open>href\<close> of a \<^verbatim>\<open>URL\<close> object is kept;
  \<^item> a method is put in upper case when it is one of the six standard ones, and
    \<^verbatim>\<open>CONNECT\<close>, \<^verbatim>\<open>TRACE\<close> and \<^verbatim>\<open>TRACK\<close> are a \<^verbatim>\<open>TypeError\<close>;
  \<^item> header names are put in lower case, forbidden request header names are
    dropped without an error, and \<^verbatim>\<open>entries()\<close> yields the names sorted by code
    unit, each once, with the values of a repeated name joined by a comma and a space;
  \<^item> a body with the method \<^verbatim>\<open>GET\<close> or \<^verbatim>\<open>HEAD\<close> is a \<^verbatim>\<open>TypeError\<close>.
\<close>

definition ascii_lowercase :: "string \<Rightarrow> string" where
  "ascii_lowercase s =
     map (\<lambda>c. case map_of (zip ''ABCDEFGHIJKLMNOPQRSTUVWXYZ'' ''abcdefghijklmnopqrstuvwxyz'') c of
                 None \<Rightarrow> c | Some d \<Rightarrow> d) s"

definition ascii_uppercase :: "string \<Rightarrow> string" where
  "ascii_uppercase s =
     map (\<lambda>c. case map_of (zip ''abcdefghijklmnopqrstuvwxyz'' ''ABCDEFGHIJKLMNOPQRSTUVWXYZ'') c of
                 None \<Rightarrow> c | Some d \<Rightarrow> d) s"

definition example_parse_url :: "string \<Rightarrow> string option" where
  "example_parse_url u =
     (let scheme = (if ascii_lowercase (take 7 u) = ''http://'' then ''http://''
                    else if ascii_lowercase (take 8 u) = ''https://'' then ''https://''
                    else []);
          rest = drop (length scheme) u;
          host_part = takeWhile (\<lambda>c. c \<notin> set ''/?#'') rest;
          tail = dropWhile (\<lambda>c. c \<notin> set ''/?#'') rest
      in if scheme = [] \<or> host_part = [] then None
         else Some (scheme @ ascii_lowercase host_part
                    @ (if take 1 tail = ''/'' then tail else ''/'' @ tail)))"

definition forbidden_request_header :: "string \<Rightarrow> bool" where
  "forbidden_request_header name =
     (name \<in> set [''accept-charset'', ''accept-encoding'', ''access-control-request-headers'',
                   ''access-control-request-method'', ''connection'', ''content-length'',
                   ''cookie'', ''cookie2'', ''date'', ''dnt'', ''expect'', ''host'',
                   ''keep-alive'', ''origin'', ''referer'', ''set-cookie'', ''te'', ''trailer'',
                   ''transfer-encoding'', ''upgrade'', ''via'']
      \<or> startsWith name ''proxy-'' \<or> startsWith name ''sec-'')"

fun code_unit_less :: "string \<Rightarrow> string \<Rightarrow> bool" where
  "code_unit_less [] [] = False"
| "code_unit_less [] (b # bs) = True"
| "code_unit_less (a # as) [] = False"
| "code_unit_less (a # as) (b # bs) =
     ((of_char a :: nat) < of_char b \<or> (a = b \<and> code_unit_less as bs))"

fun insert_name :: "string \<Rightarrow> string list \<Rightarrow> string list" where
  "insert_name n [] = [n]"
| "insert_name n (m # ms) =
     (if n = m then m # ms
      else if code_unit_less n m then n # m # ms
      else m # insert_name n ms)"

fun join_values :: "string list \<Rightarrow> string" where
  "join_values [] = []"
| "join_values [v] = v"
| "join_values (v # w # vs) = v @ '', '' @ join_values (w # vs)"

text \<open>What \<^verbatim>\<open>entries()\<close> yields for a header list with names in lower case.\<close>

definition sort_and_combine :: "(string \<times> string) list \<Rightarrow> (string \<times> string) list" where
  "sort_and_combine hs =
     map (\<lambda>n. (n, join_values (map snd (filter (\<lambda>(k, v). k = n) hs))))
         (foldr insert_name (map fst hs) [])"

definition example_headers_entries ::
  "(string \<times> string) list \<Rightarrow> exception + (string \<times> string) list" where
  "example_headers_entries hs =
     (if [] \<in> fst ` set hs then Inl ''TypeError''
      else Inr (sort_and_combine
                  (filter (\<lambda>(k, v). \<not> forbidden_request_header k)
                     (map (\<lambda>(k, v). (ascii_lowercase k, v)) hs))))"

definition example_method :: "string \<Rightarrow> exception + string" where
  "example_method m =
     (let u = ascii_uppercase m in
      if u \<in> set [''CONNECT'', ''TRACE'', ''TRACK''] then Inl ''TypeError''
      else if u \<in> set [''DELETE'', ''GET'', ''HEAD'', ''OPTIONS'', ''POST'', ''PUT''] then Inr u
      else Inr m)"

text \<open>The members of the init object applied to a request.\<close>

definition example_apply_init :: "Request \<Rightarrow> RequestInit \<Rightarrow> exception + Request" where
  "example_apply_init r i =
     (case (case init_method i of None \<Rightarrow> Inr (req_method r) | Some m \<Rightarrow> example_method m) of
        Inl x \<Rightarrow> Inl x
      | Inr m \<Rightarrow>
     (case (case init_headers i of None \<Rightarrow> Inr (req_headers_entries r)
            | Some hs \<Rightarrow> example_headers_entries hs) of
        Inl x \<Rightarrow> Inl x
      | Inr es \<Rightarrow>
     (case init_body i of
        None \<Rightarrow>
          Inr \<lparr> req_method = m, req_url = req_url r, req_headers_entries = es,
                req_arrayBuffer = req_arrayBuffer r \<rparr>
      | Some bs \<Rightarrow>
          if m = ''GET'' \<or> m = ''HEAD'' then Inl ''TypeError''
          else Inr \<lparr> req_method = m, req_url = req_url r, req_headers_entries = es,
                     req_arrayBuffer = Inr bs \<rparr>)))"

definition example_Request :: "fetch_input \<Rightarrow> RequestInit option \<Rightarrow> exception + Request" where
  "example_Request input init =
     (case (case input of
              Input_Request r \<Rightarrow> Inr r
            | Input_URL u \<Rightarrow>
                Inr \<lparr> req_method = ''GET'', req_url = u, req_headers_entries = [],
                      req_arrayBuffer = Inr [] \<rparr>
            | Input_string u \<Rightarrow>
                (case example_parse_url u of
                   None \<Rightarrow> Inl ''TypeError''
                 | Some u' \<Rightarrow>
                     Inr \<lparr> req_method = ''GET'', req_url = u', req_headers_entries = [],
                           req_arrayBuffer = Inr [] \<rparr>)) of
        Inl x \<Rightarrow> Inl x
      | Inr r \<Rightarrow> (case init of None \<Rightarrow> Inr r | Some i \<Rightarrow> example_apply_init r i))"

text \<open>
  Its \<^verbatim>\<open>Response\<close> refuses a status outside 200 to 599 and starts with an empty url
  and no headers, and its \<^verbatim>\<open>Headers\<close> holds the pairs it is given.
\<close>

definition example_Response :: "body_init option \<Rightarrow> nat \<Rightarrow> string \<Rightarrow> exception + Response" where
  "example_Response b st txt =
     (if st < 200 \<or> 599 < st then Inl ''RangeError''
      else Inr \<lparr> res_status = st, res_statusText = txt,
                 res_body = (case b of None \<Rightarrow> None
                             | Some (Body_ArrayBuffer bs) \<Rightarrow> Some bs
                             | Some (Body_Uint8Array bs) \<Rightarrow> Some bs),
                 res_url = [], res_headers = Headers [] \<rparr>)"

definition example_host :: host where
  "example_host =
     \<lparr> new_Request = example_Request, new_Response = example_Response,
       new_Headers = (\<lambda>ps. Inr (Headers ps)) \<rparr>"

text \<open>
  An engine that denies one url and answers every other request with handle 1, status
  200 and the seven bytes of \<^verbatim>\<open>{"a":1}\<close> behind the body handle 2.
\<close>

definition example_send_response :: FetchSendResponse where
  "example_send_response =
     \<lparr> fsr_status = 200, fsr_statusText = ''OK'',
       fsr_headers = [(''content-type'', ''application/json''), (''set-cookie'', ''a=1'')],
       fsr_url = ''http://h/data.json'', fsr_rid = 2 \<rparr>"

definition example_engine :: engine where
  "example_engine =
     \<lparr> plugin_http_fetch =
         (\<lambda>cfg. if cfg_url cfg = ''http://denied/''
                then Inl ''url not allowed on the configured scope'' else Inr 1),
       plugin_http_fetch_send = (\<lambda>rid. Inr example_send_response),
       plugin_http_fetch_read_body = (\<lambda>rid. Inr (Array [123, 34, 97, 34, 58, 49, 125])) \<rparr>"

text \<open>The same engine when the promise of \<^verbatim>\<open>plugin:http|fetch_send\<close> rejects.\<close>

definition example_engine_send_rejected :: engine where
  "example_engine_send_rejected =
     example_engine \<lparr> plugin_http_fetch_send := (\<lambda>rid. Inl ''Request canceled'') \<rparr>"

text \<open>The same engine with another reply to \<^verbatim>\<open>plugin:http|fetch_read_body\<close>.\<close>

definition example_engine_body :: "body_reply \<Rightarrow> engine" where
  "example_engine_body body =
     example_engine \<lparr> plugin_http_fetch_read_body := (\<lambda>rid. Inr body) \<rparr>"

text \<open>
  An init object of a caller: three headers, one of them twice and one under the
  reserved prefix, and a body of two bytes. The host constructs \<open>example_request\<close>
  from it, and \<open>example_request_denied\<close> from the denied url alone.
\<close>

definition example_init :: RequestInit where
  "example_init =
     \<lparr> init_method = Some ''post'',
       init_headers = Some [(''X-A'', ''2''), (''http_unsafe_header_x-a'', ''1''),
                            (''http_unsafe_header_origin'', ''http://o''), (''Accept'', ''*/*'')],
       init_body = Some [104, 105], signal = None \<rparr>"

definition example_request :: Request where
  "example_request =
     \<lparr> req_method = ''POST'', req_url = ''http://h/data.json'',
       req_headers_entries = [(''accept'', ''*/*''), (''http_unsafe_header_origin'', ''http://o''),
                              (''http_unsafe_header_x-a'', ''1''), (''x-a'', ''2'')],
       req_arrayBuffer = Inr [104, 105] \<rparr>"

definition example_request_denied :: Request where
  "example_request_denied =
     \<lparr> req_method = ''GET'', req_url = ''http://denied/'', req_headers_entries = [],
       req_arrayBuffer = Inr [] \<rparr>"

text \<open>An init object whose headers are not in the order of their names and repeat a name.\<close>

definition example_init_unsorted :: RequestInit where
  "example_init_unsorted =
     \<lparr> init_method = None,
       init_headers = Some [(''x-b'', ''1''), (''x-a'', ''1''), (''x-a'', ''2'')],
       init_body = None, signal = None \<rparr>"

definition example_signal :: "nat option \<Rightarrow> RequestInit option" where
  "example_signal k =
     Some \<lparr> init_method = None, init_headers = None, init_body = None,
            signal = Some (AbortSignal k) \<rparr>"

text \<open>The configuration that \<^verbatim>\<open>fetch\<close> sends for \<open>example_request\<close> without options.\<close>

definition example_cfg :: clientConfig where
  "example_cfg =
     \<lparr> cfg_method = ''POST'', cfg_url = ''http://h/data.json'',
       cfg_headers = [(''accept'', ''*/*''), (''origin'', ''http://o''),
                      (''x-a'', ''1''), (''x-a'', ''2'')],
       cfg_data = Some [104, 105], cfg_options = None \<rparr>"

text \<open>The response that \<^verbatim>\<open>fetch\<close> returns from the replies of the engine, with a given body.\<close>

definition example_response :: "byte list option \<Rightarrow> Response" where
  "example_response b =
     \<lparr> res_status = 200, res_statusText = ''OK'', res_body = b,
       res_url = ''http://h/data.json'',
       res_headers = Headers [(''content-type'', ''application/json''), (''set-cookie'', ''a=1'')] \<rparr>"

lemmas ex_defs = example_host_def example_engine_def example_Request_def
  example_apply_init_def example_method_def example_headers_entries_def sort_and_combine_def
  forbidden_request_header_def example_parse_url_def ascii_lowercase_def ascii_uppercase_def
  example_engine_send_rejected_def example_init_def example_request_denied_def
  example_init_unsorted_def
  example_Response_def init_signal_def signal_aborted_def aborted_def abort_event_def listener_def
  request_data_def mappedHeaders_def response_body_def startsWith_def substring_def
  UNSAFE_HEADER_PREFIX_def ERROR_REQUEST_CANCELLED_def Let_def example_request_def
  example_signal_def example_cfg_def example_send_response_def example_response_def
  example_engine_body_def

section \<open>Properties\<close>

subsection \<open>The signal and the header loop\<close>

text \<open>A signal that is active at a program point is active at every later one.\<close>

lemma aborted_mono: "aborted s t \<Longrightarrow> t \<le> t' \<Longrightarrow> aborted s t'"
  by (auto simp: aborted_def split: option.splits)

lemma signal_aborted_mono: "signal_aborted sig t \<Longrightarrow> t \<le> t' \<Longrightarrow> signal_aborted sig t'"
  by (auto simp: signal_aborted_def split: option.splits intro: aborted_mono)

text \<open>The loop pushes one pair for each entry, in the order of the entries.\<close>

lemma mappedHeaders_loop_map:
  "mappedHeaders_loop entries acc =
     acc @ map (\<lambda>(key, value).
                 (if startsWith key UNSAFE_HEADER_PREFIX
                  then substring key (length UNSAFE_HEADER_PREFIX) else key, value)) entries"
  by (induction entries arbitrary: acc) (auto simp: Let_def)

lemma mappedHeaders_map:
  "mappedHeaders req =
     map (\<lambda>(key, value).
            (if startsWith key UNSAFE_HEADER_PREFIX
             then substring key (length UNSAFE_HEADER_PREFIX) else key, value))
         (req_headers_entries req)"
  by (simp add: mappedHeaders_def mappedHeaders_loop_map)

lemma startsWith_substring: "startsWith s p \<Longrightarrow> s = p @ substring s (length p)"
  unfolding startsWith_def substring_def
  by (metis append_take_drop_id)

subsection \<open>The two checks before the issue call\<close>

lemma fetch_aborted_0:
  "signal_aborted (init_signal init) 0 \<Longrightarrow>
   fetch h eng input init options = ([], Inl (Error ERROR_REQUEST_CANCELLED))"
  by (simp add: fetch_def)

lemma fetch_aborted_1:
  assumes "new_Request h input init = Inr req" and "req_arrayBuffer req = Inr buffer"
    and "signal_aborted (init_signal init) 1"
  shows "fetch h eng input init options = ([], Inl (Error ERROR_REQUEST_CANCELLED))"
  using assms by (simp add: fetch_def Let_def)

lemma fetch_no_call_when_aborted_1:
  assumes "signal_aborted (init_signal init) 1"
  shows "fst (fetch h eng input init options) = []"
  using assms by (simp add: fetch_def Let_def split: sum.splits)

text \<open>
  Claim C1. When the signal is active at the check at entry, or at the check after the
  request has been constructed and its body read, \<^verbatim>\<open>fetch\<close> throws the cancellation
  error and no call at all reaches the engine. A signal that is active at the second
  program point leaves the list of engine calls empty also when the host's constructor
  or the read of the body has thrown before that check.
\<close>

theorem fetch_cancelled_before_issue:
  "(signal_aborted (init_signal init) 0 \<or>
      (new_Request h input init = Inr req \<and> req_arrayBuffer req = Inr buffer \<and>
       signal_aborted (init_signal init) 1)
    \<longrightarrow> fetch h eng input init options = ([], Inl (Error ERROR_REQUEST_CANCELLED)))
   \<and> (signal_aborted (init_signal init) 1 \<longrightarrow> fst (fetch h eng input init options) = [])"
  using fetch_aborted_0 fetch_aborted_1 fetch_no_call_when_aborted_1 by blast

theorem fetch_cancelled_before_issue_witness:
  "signal_aborted (init_signal (example_signal (Some 0))) 0
   \<and> fetch example_host example_engine (Input_Request example_request) (example_signal (Some 0)) None
       = ([], Inl (Error ''Request canceled''))
   \<and> \<not> signal_aborted (init_signal (example_signal (Some 1))) 0
   \<and> new_Request example_host (Input_Request example_request) (example_signal (Some 1))
       = Inr example_request
   \<and> req_arrayBuffer example_request = Inr [104, 105]
   \<and> signal_aborted (init_signal (example_signal (Some 1))) 1
   \<and> fetch example_host example_engine (Input_Request example_request) (example_signal (Some 1)) None
       = ([], Inl (Error ''Request canceled''))
   \<and> fst (fetch example_host example_engine (Input_Request example_request)
             (example_signal (Some 1)) None) = []"
  using fetch_cancelled_before_issue [where init = "example_signal (Some 0)" and h = example_host
      and input = "Input_Request example_request" and eng = example_engine and options = None]
    fetch_cancelled_before_issue [where init = "example_signal (Some 1)" and h = example_host
      and input = "Input_Request example_request" and req = example_request
      and buffer = "[104, 105]" and eng = example_engine and options = None]
  by (simp add: ex_defs)

subsection \<open>The issue call\<close>

lemma not_aborted_0: "\<not> signal_aborted sig 1 \<Longrightarrow> \<not> signal_aborted sig 0"
  using signal_aborted_mono [of sig 0 1] by auto

text \<open>Past both checks the first engine call is the issue call, with this configuration.\<close>

lemma fetch_issue:
  assumes "new_Request h input init = Inr req" and "req_arrayBuffer req = Inr buffer"
    and "\<not> signal_aborted (init_signal init) 1"
  shows "\<exists>rest. fst (fetch h eng input init options) =
           Fetch \<lparr> cfg_method = req_method req, cfg_url = req_url req,
                   cfg_headers = mappedHeaders req, cfg_data = request_data buffer,
                   cfg_options = options \<rparr> # rest"
  using assms not_aborted_0 [OF assms(3)]
  by (simp add: fetch_def Let_def split: sum.splits)

text \<open>Every issue call that is made carries the configuration built from the request.\<close>

lemma fetch_calls_Fetch:
  assumes "Fetch cfg \<in> set (fst (fetch h eng input init options))"
  shows "\<exists>req buffer. new_Request h input init = Inr req \<and> req_arrayBuffer req = Inr buffer
           \<and> cfg = \<lparr> cfg_method = req_method req, cfg_url = req_url req,
                   cfg_headers = mappedHeaders req, cfg_data = request_data buffer,
                   cfg_options = options \<rparr>"
  using assms
  by (auto simp: fetch_def Let_def listener_def split: sum.splits if_splits option.splits)

lemma fetch_aborted_2:
  assumes "new_Request h input init = Inr req" and "req_arrayBuffer req = Inr buffer"
    and "\<not> signal_aborted (init_signal init) 1"
    and "plugin_http_fetch eng
           \<lparr> cfg_method = req_method req, cfg_url = req_url req,
             cfg_headers = mappedHeaders req, cfg_data = request_data buffer,
             cfg_options = options \<rparr> = Inr rid"
    and "signal_aborted (init_signal init) 2"
  shows "fetch h eng input init options =
           ([Fetch \<lparr> cfg_method = req_method req, cfg_url = req_url req,
                     cfg_headers = mappedHeaders req, cfg_data = request_data buffer,
                     cfg_options = options \<rparr>, Fetch_cancel rid],
            Inl (Error ERROR_REQUEST_CANCELLED))"
  using assms not_aborted_0 [OF assms(3)] by (simp add: fetch_def Let_def)

text \<open>
  Claim C2. When the issue call has returned the handle \<open>rid\<close> and the signal is
  active at the check that follows it (line 159), the engine calls of \<^verbatim>\<open>fetch\<close> are
  the issue call and one cancel call for \<open>rid\<close>, no status call and no body call, and
  \<^verbatim>\<open>fetch\<close> throws the cancellation error. The promise of the cancel call is not
  awaited: its outcome is no input of \<^verbatim>\<open>fetch\<close>.
\<close>

theorem fetch_cancelled_after_issue:
  assumes "new_Request h input init = Inr req" and "req_arrayBuffer req = Inr buffer"
    and "\<not> signal_aborted (init_signal init) 1"
    and "cfg = \<lparr> cfg_method = req_method req, cfg_url = req_url req,
                 cfg_headers = mappedHeaders req, cfg_data = request_data buffer,
                 cfg_options = options \<rparr>"
    and "plugin_http_fetch eng cfg = Inr rid"
    and "signal_aborted (init_signal init) 2"
  shows "fetch h eng input init options =
           ([Fetch cfg, Fetch_cancel rid], Inl (Error ERROR_REQUEST_CANCELLED))"
  using assms fetch_aborted_2 [of h input init req buffer eng options rid] by simp

theorem fetch_cancelled_after_issue_witness:
  "new_Request example_host (Input_Request example_request) (example_signal (Some 2))
       = Inr example_request
   \<and> req_arrayBuffer example_request = Inr [104, 105]
   \<and> \<not> signal_aborted (init_signal (example_signal (Some 2))) 1
   \<and> plugin_http_fetch example_engine example_cfg = Inr 1
   \<and> signal_aborted (init_signal (example_signal (Some 2))) 2
   \<and> fetch example_host example_engine (Input_Request example_request) (example_signal (Some 2)) None
       = ([Fetch example_cfg, Fetch_cancel 1], Inl (Error ''Request canceled''))"
  using fetch_cancelled_after_issue [where init = "example_signal (Some 2)" and h = example_host
      and input = "Input_Request example_request" and req = example_request
      and buffer = "[104, 105]" and eng = example_engine and options = None and rid = 1,
      OF _ _ _ refl]
  by (simp add: ex_defs)

text \<open>
  Claim C3. In the issue call, the header list has one pair for each entry of the
  constructed request, at the same position; the value is the entry's value; the name
  of an entry that starts with \<^verbatim>\<open>http_unsafe_header_\<close> is the entry's name without
  that prefix, and the name of any other entry is the entry's name.
\<close>

theorem fetch_unsafe_header_prefix_stripped:
  assumes "new_Request h input init = Inr req" and "req_arrayBuffer req = Inr buffer"
    and "\<not> signal_aborted (init_signal init) 1"
  shows "\<exists>cfg rest. fst (fetch h eng input init options) = Fetch cfg # rest
           \<and> length (cfg_headers cfg) = length (req_headers_entries req)
           \<and> (\<forall>i < length (req_headers_entries req).
                 snd (cfg_headers cfg ! i) = snd (req_headers_entries req ! i)
                 \<and> (startsWith (fst (req_headers_entries req ! i)) ''http_unsafe_header_''
                      \<longrightarrow> fst (req_headers_entries req ! i)
                            = ''http_unsafe_header_'' @ fst (cfg_headers cfg ! i))
                 \<and> (\<not> startsWith (fst (req_headers_entries req ! i)) ''http_unsafe_header_''
                      \<longrightarrow> fst (cfg_headers cfg ! i) = fst (req_headers_entries req ! i)))"
proof -
  obtain rest where calls: "fst (fetch h eng input init options) =
      Fetch \<lparr> cfg_method = req_method req, cfg_url = req_url req,
              cfg_headers = mappedHeaders req, cfg_data = request_data buffer,
              cfg_options = options \<rparr> # rest"
    using fetch_issue [OF assms] by blast
  have len: "length (mappedHeaders req) = length (req_headers_entries req)"
    by (simp add: mappedHeaders_map)
  have each: "snd (mappedHeaders req ! i) = snd (req_headers_entries req ! i)
      \<and> (startsWith (fst (req_headers_entries req ! i)) ''http_unsafe_header_''
            \<longrightarrow> fst (req_headers_entries req ! i)
                  = ''http_unsafe_header_'' @ fst (mappedHeaders req ! i))
      \<and> (\<not> startsWith (fst (req_headers_entries req ! i)) ''http_unsafe_header_''
            \<longrightarrow> fst (mappedHeaders req ! i) = fst (req_headers_entries req ! i))"
    if "i < length (req_headers_entries req)" for i
  proof -
    obtain key val where kv: "req_headers_entries req ! i = (key, val)"
      by (cases "req_headers_entries req ! i")
    have m: "mappedHeaders req ! i =
        (if startsWith key UNSAFE_HEADER_PREFIX
         then substring key (length UNSAFE_HEADER_PREFIX) else key, val)"
      using that kv by (simp add: mappedHeaders_map)
    show ?thesis
      using startsWith_substring [of key UNSAFE_HEADER_PREFIX]
      by (simp add: m kv UNSAFE_HEADER_PREFIX_def)
  qed
  show ?thesis
    using calls len each by simp
qed

theorem fetch_unsafe_header_prefix_stripped_witness:
  "new_Request example_host (Input_Request example_request) None = Inr example_request
   \<and> req_arrayBuffer example_request = Inr [104, 105]
   \<and> \<not> signal_aborted (init_signal None) 1
   \<and> req_headers_entries example_request ! 1 = (''http_unsafe_header_origin'', ''http://o'')
   \<and> (\<exists>cfg rest. fst (fetch example_host example_engine (Input_Request example_request) None None)
          = Fetch cfg # rest
        \<and> cfg_headers cfg ! 1 = (''origin'', ''http://o'')
        \<and> cfg_headers cfg ! 0 = (''accept'', ''*/*''))"
  using fetch_unsafe_header_prefix_stripped [where init = None and h = example_host
      and input = "Input_Request example_request" and req = example_request
      and buffer = "[104, 105]" and eng = example_engine and options = None]
  by (simp add: ex_defs fetch_def)

text \<open>
  Claim C4. In the issue call, the field \<^verbatim>\<open>data\<close> of a request whose body has
  \<open>N > 0\<close> bytes is a list of \<open>N\<close> numbers, the \<open>i\<close>-th of which is the value of the
  \<open>i\<close>-th byte, so that the bytes are recovered from it; for a request whose body
  reads as no bytes it is \<^verbatim>\<open>null\<close> (\<open>None\<close>), not an empty list.
\<close>

theorem fetch_body_bytes_transmitted:
  assumes "new_Request h input init = Inr req" and "req_arrayBuffer req = Inr buffer"
    and "\<not> signal_aborted (init_signal init) 1"
  shows "\<exists>cfg rest. fst (fetch h eng input init options) = Fetch cfg # rest
           \<and> (buffer \<noteq> [] \<longrightarrow>
                 (\<exists>ds. cfg_data cfg = Some ds \<and> length ds = length buffer
                    \<and> map word_of_int ds = buffer
                    \<and> (\<forall>i < length buffer. ds ! i = uint (buffer ! i))))
           \<and> (buffer = [] \<longrightarrow> cfg_data cfg = None)"
proof -
  obtain rest where calls: "fst (fetch h eng input init options) =
      Fetch \<lparr> cfg_method = req_method req, cfg_url = req_url req,
              cfg_headers = mappedHeaders req, cfg_data = request_data buffer,
              cfg_options = options \<rparr> # rest"
    using fetch_issue [OF assms] by blast
  have "map word_of_int (map uint buffer) = buffer"
    by (simp add: map_idI)
  then show ?thesis
    using calls by (simp add: request_data_def)
qed

theorem fetch_body_bytes_transmitted_witness:
  "new_Request example_host (Input_Request example_request) None = Inr example_request
   \<and> req_arrayBuffer example_request = Inr [104, 105]
   \<and> \<not> signal_aborted (init_signal None) 1
   \<and> (\<exists>cfg rest. fst (fetch example_host example_engine (Input_Request example_request) None None)
          = Fetch cfg # rest \<and> cfg_data cfg = Some [104, 105])
   \<and> new_Request example_host (Input_string ''http://h/data.json'') None
       = Inr \<lparr> req_method = ''GET'', req_url = ''http://h/data.json'', req_headers_entries = [],
               req_arrayBuffer = Inr [] \<rparr>
   \<and> (\<exists>cfg rest. fst (fetch example_host example_engine (Input_string ''http://h/data.json'') None None)
          = Fetch cfg # rest \<and> cfg_data cfg = None)"
  using fetch_body_bytes_transmitted [where init = None and h = example_host
      and input = "Input_Request example_request" and req = example_request
      and buffer = "[104, 105]" and eng = example_engine and options = None]
    fetch_body_bytes_transmitted [where init = None and h = example_host
      and input = "Input_string ''http://h/data.json''"
      and req = "\<lparr> req_method = ''GET'', req_url = ''http://h/data.json'',
                   req_headers_entries = [], req_arrayBuffer = Inr [] \<rparr>"
      and buffer = "[]" and eng = example_engine and options = None]
  by (simp add: ex_defs fetch_def)

subsection \<open>A fetch that returns a response\<close>

text \<open>What a run that returns a response has gone through.\<close>

lemma fetch_success:
  assumes "fetch h eng input init options = (calls, Inr res)"
  shows "\<exists>req buffer rid r body res0 hs.
           new_Request h input init = Inr req \<and> req_arrayBuffer req = Inr buffer
           \<and> \<not> signal_aborted (init_signal init) 2
           \<and> plugin_http_fetch eng
                \<lparr> cfg_method = req_method req, cfg_url = req_url req,
                  cfg_headers = mappedHeaders req, cfg_data = request_data buffer,
                  cfg_options = options \<rparr> = Inr rid
           \<and> plugin_http_fetch_send eng rid = Inr r
           \<and> plugin_http_fetch_read_body eng (fsr_rid r) = Inr body
           \<and> new_Response h (response_body body) (fsr_status r) (fsr_statusText r) = Inr res0
           \<and> new_Headers h (fsr_headers r) = Inr hs
           \<and> calls = [Fetch \<lparr> cfg_method = req_method req, cfg_url = req_url req,
                         cfg_headers = mappedHeaders req, cfg_data = request_data buffer,
                         cfg_options = options \<rparr>, Fetch_send rid]
                      @ listener (init_signal init) rid 3
                      @ [Fetch_read_body (fsr_rid r)] @ listener (init_signal init) rid 4
           \<and> res = res0 \<lparr> res_url := fsr_url r, res_headers := hs \<rparr>"
  using assms
  by (simp add: fetch_def Let_def split: sum.splits if_splits)

lemma Fetch_read_body_listener: "Fetch_read_body b \<notin> set (listener sig rid t)"
  by (simp add: listener_def split: option.splits)

text \<open>
  Claim C5. The response that \<^verbatim>\<open>fetch\<close> returns has as \<^verbatim>\<open>url\<close> the url of the
  reply to the status call, and as \<^verbatim>\<open>headers\<close> the \<^verbatim>\<open>Headers\<close> object that the
  host builds from the header pairs of that reply, whatever url and headers the host's
  \<^verbatim>\<open>Response\<close> constructor had given it: in every other property it is the object
  \<open>res0\<close> that the constructor returned.
\<close>

theorem fetch_response_url_headers:
  assumes "fetch h eng input init options = (calls, Inr res)"
  shows "\<exists>rid r body res0.
           Fetch_send rid \<in> set calls
           \<and> plugin_http_fetch_send eng rid = Inr r
           \<and> plugin_http_fetch_read_body eng (fsr_rid r) = Inr body
           \<and> new_Response h (response_body body) (fsr_status r) (fsr_statusText r) = Inr res0
           \<and> res_url res = fsr_url r
           \<and> new_Headers h (fsr_headers r) = Inr (res_headers res)
           \<and> res = res0 \<lparr> res_url := fsr_url r, res_headers := res_headers res \<rparr>"
proof -
  obtain req buffer rid r body res0 hs where
    send: "plugin_http_fetch_send eng rid = Inr r"
    and body: "plugin_http_fetch_read_body eng (fsr_rid r) = Inr body"
    and res0: "new_Response h (response_body body) (fsr_status r) (fsr_statusText r) = Inr res0"
    and hs: "new_Headers h (fsr_headers r) = Inr hs"
    and calls: "calls = [Fetch \<lparr> cfg_method = req_method req, cfg_url = req_url req,
                         cfg_headers = mappedHeaders req, cfg_data = request_data buffer,
                         cfg_options = options \<rparr>, Fetch_send rid]
                      @ listener (init_signal init) rid 3
                      @ [Fetch_read_body (fsr_rid r)] @ listener (init_signal init) rid 4"
    and res: "res = res0 \<lparr> res_url := fsr_url r, res_headers := hs \<rparr>"
    using fetch_success [OF assms] by blast
  have "Fetch_send rid \<in> set calls"
    by (simp add: calls)
  moreover have "res_url res = fsr_url r" "res_headers res = hs"
    by (simp_all add: res)
  ultimately show ?thesis
    using send body res0 hs res by auto
qed

theorem fetch_response_url_headers_witness:
  "fetch example_host example_engine (Input_Request example_request) None None
     = ([Fetch example_cfg, Fetch_send 1, Fetch_read_body 2],
        Inr (example_response (Some [123, 34, 97, 34, 58, 49, 125])))
   \<and> res_url (example_response (Some [123, 34, 97, 34, 58, 49, 125])) = ''http://h/data.json''
   \<and> (\<exists>rid r. plugin_http_fetch_send example_engine rid = Inr r
         \<and> fsr_url r = ''http://h/data.json''
         \<and> new_Headers example_host (fsr_headers r)
             = Inr (Headers [(''content-type'', ''application/json''), (''set-cookie'', ''a=1'')]))"
  using fetch_response_url_headers [where h = example_host and eng = example_engine
      and input = "Input_Request example_request" and init = None and options = None
      and calls = "[Fetch example_cfg, Fetch_send 1, Fetch_read_body 2]"
      and res = "example_response (Some [123, 34, 97, 34, 58, 49, 125])"]
  by (simp add: ex_defs fetch_def)

subsection \<open>A rejected issue call\<close>

text \<open>
  Claim C6. When the promise of the issue call rejects with the payload \<open>e\<close>,
  \<^verbatim>\<open>fetch\<close> rejects with \<open>e\<close> as it is, and the issue call is the only call that
  has reached the engine: it is made once, and no status call and no body call follows.
\<close>

theorem fetch_issue_rejected:
  assumes "new_Request h input init = Inr req" and "req_arrayBuffer req = Inr buffer"
    and "\<not> signal_aborted (init_signal init) 1"
    and "cfg = \<lparr> cfg_method = req_method req, cfg_url = req_url req,
                 cfg_headers = mappedHeaders req, cfg_data = request_data buffer,
                 cfg_options = options \<rparr>"
    and "plugin_http_fetch eng cfg = Inl e"
  shows "fetch h eng input init options = ([Fetch cfg], Inl (Rejected e))
         \<and> (\<forall>rid. Fetch_send rid \<notin> set (fst (fetch h eng input init options))
                 \<and> Fetch_read_body rid \<notin> set (fst (fetch h eng input init options)))"
proof -
  have "fetch h eng input init options = ([Fetch cfg], Inl (Rejected e))"
    using assms not_aborted_0 [OF assms(3)] by (simp add: fetch_def Let_def)
  then show ?thesis by simp
qed

theorem fetch_issue_rejected_witness:
  "new_Request example_host (Input_string ''http://denied/'') None
       = Inr \<lparr> req_method = ''GET'', req_url = ''http://denied/'', req_headers_entries = [],
               req_arrayBuffer = Inr [] \<rparr>
   \<and> \<not> signal_aborted (init_signal None) 1
   \<and> plugin_http_fetch example_engine
        \<lparr> cfg_method = ''GET'', cfg_url = ''http://denied/'', cfg_headers = [],
          cfg_data = None, cfg_options = None \<rparr> = Inl ''url not allowed on the configured scope''
   \<and> fetch example_host example_engine (Input_string ''http://denied/'') None None
       = ([Fetch \<lparr> cfg_method = ''GET'', cfg_url = ''http://denied/'', cfg_headers = [],
                   cfg_data = None, cfg_options = None \<rparr>],
          Inl (Rejected ''url not allowed on the configured scope''))"
  using fetch_issue_rejected [where init = None and h = example_host
      and input = "Input_string ''http://denied/''"
      and req = "\<lparr> req_method = ''GET'', req_url = ''http://denied/'', req_headers_entries = [],
               req_arrayBuffer = Inr [] \<rparr>"
      and buffer = "[]" and eng = example_engine and options = None
      and e = "''url not allowed on the configured scope''", OF _ _ _ refl]
  by (simp add: ex_defs)

subsection \<open>Where the signal is checked\<close>

text \<open>
  Once the status call has resolved, the body call is made and the outcome is not the
  cancellation error, whatever the signal has done since the check of line 159.
\<close>

lemma fetch_after_send:
  assumes "new_Request h input init = Inr req" and "req_arrayBuffer req = Inr buffer"
    and "plugin_http_fetch eng
           \<lparr> cfg_method = req_method req, cfg_url = req_url req,
             cfg_headers = mappedHeaders req, cfg_data = request_data buffer,
             cfg_options = options \<rparr> = Inr rid"
    and "\<not> signal_aborted (init_signal init) 2"
    and "plugin_http_fetch_send eng rid = Inr r"
  shows "Fetch_read_body (fsr_rid r) \<in> set (fst (fetch h eng input init options))
         \<and> snd (fetch h eng input init options) \<noteq> Inl (Error ERROR_REQUEST_CANCELLED)"
proof -
  have "\<not> signal_aborted (init_signal init) 1" "\<not> signal_aborted (init_signal init) 0"
    using assms(4) signal_aborted_mono [of "init_signal init" 1 2]
      signal_aborted_mono [of "init_signal init" 0 2] by auto
  then show ?thesis
    using assms by (simp add: fetch_def Let_def split: sum.splits)
qed

text \<open>
  A signal that becomes active while \<^verbatim>\<open>fetch\<close> awaits the status call reaches the
  engine through the listener: the cancel call for the handle follows the status call.
\<close>

lemma fetch_listener_cancel:
  assumes "new_Request h input init = Inr req" and "req_arrayBuffer req = Inr buffer"
    and "plugin_http_fetch eng
           \<lparr> cfg_method = req_method req, cfg_url = req_url req,
             cfg_headers = mappedHeaders req, cfg_data = request_data buffer,
             cfg_options = options \<rparr> = Inr rid"
    and "init_signal init = Some s" and "fires s = Some 3"
  shows "take 3 (fst (fetch h eng input init options)) =
           [Fetch \<lparr> cfg_method = req_method req, cfg_url = req_url req,
                     cfg_headers = mappedHeaders req, cfg_data = request_data buffer,
                     cfg_options = options \<rparr>, Fetch_send rid, Fetch_cancel rid]"
  using assms
  by (simp add: fetch_def Let_def signal_aborted_def aborted_def listener_def abort_event_def
      split: sum.splits)

text \<open>
  Claim C7, as stated, fails at the body call. The signal below becomes active while
  \<^verbatim>\<open>fetch\<close> awaits the status call, so it is active immediately before the body
  call; the listener sends a cancel call for handle 1, the status call resolves all the
  same, and \<^verbatim>\<open>fetch\<close> makes the body call and returns the response.
\<close>

theorem fetch_body_call_unchecked:
  "signal_aborted (init_signal (example_signal (Some 3))) 3
   \<and> fetch example_host example_engine (Input_Request example_request) (example_signal (Some 3)) None
     = ([Fetch example_cfg, Fetch_send 1, Fetch_cancel 1, Fetch_read_body 2],
        Inr (example_response (Some [123, 34, 97, 34, 58, 49, 125])))"
  by (simp add: ex_defs fetch_def)

text \<open>
  What the listener adds to the run when the signal becomes active during the await
  of the status call, and during the await of the body call.
\<close>

lemma fetch_listener_3_resolved:
  assumes "new_Request h input init = Inr req" and "req_arrayBuffer req = Inr buffer"
    and "plugin_http_fetch eng \<lparr> cfg_method = req_method req, cfg_url = req_url req,
               cfg_headers = mappedHeaders req, cfg_data = request_data buffer,
               cfg_options = options \<rparr> = Inr rid"
    and "init_signal init = Some s" and "fires s = Some 3"
    and "plugin_http_fetch_send eng rid = Inr r"
  shows "fst (fetch h eng input init options) =
           [Fetch \<lparr> cfg_method = req_method req, cfg_url = req_url req,
               cfg_headers = mappedHeaders req, cfg_data = request_data buffer,
               cfg_options = options \<rparr>, Fetch_send rid, Fetch_cancel rid, Fetch_read_body (fsr_rid r)]"
  using assms
  by (simp add: fetch_def Let_def signal_aborted_def aborted_def listener_def abort_event_def
      split: sum.splits)

lemma fetch_listener_3_rejected:
  assumes "new_Request h input init = Inr req" and "req_arrayBuffer req = Inr buffer"
    and "plugin_http_fetch eng \<lparr> cfg_method = req_method req, cfg_url = req_url req,
               cfg_headers = mappedHeaders req, cfg_data = request_data buffer,
               cfg_options = options \<rparr> = Inr rid"
    and "init_signal init = Some s" and "fires s = Some 3"
    and "plugin_http_fetch_send eng rid = Inl e"
  shows "fetch h eng input init options =
           ([Fetch \<lparr> cfg_method = req_method req, cfg_url = req_url req,
               cfg_headers = mappedHeaders req, cfg_data = request_data buffer,
               cfg_options = options \<rparr>, Fetch_send rid, Fetch_cancel rid], Inl (Rejected e))"
  using assms
  by (simp add: fetch_def Let_def signal_aborted_def aborted_def listener_def abort_event_def)

lemma fetch_listener_4:
  assumes "new_Request h input init = Inr req" and "req_arrayBuffer req = Inr buffer"
    and "plugin_http_fetch eng \<lparr> cfg_method = req_method req, cfg_url = req_url req,
               cfg_headers = mappedHeaders req, cfg_data = request_data buffer,
               cfg_options = options \<rparr> = Inr rid"
    and "init_signal init = Some s" and "fires s = Some 4"
    and "plugin_http_fetch_send eng rid = Inr r"
  shows "fst (fetch h eng input init options) =
           [Fetch \<lparr> cfg_method = req_method req, cfg_url = req_url req,
               cfg_headers = mappedHeaders req, cfg_data = request_data buffer,
               cfg_options = options \<rparr>, Fetch_send rid, Fetch_read_body (fsr_rid r), Fetch_cancel rid]"
  using assms
  by (simp add: fetch_def Let_def signal_aborted_def aborted_def listener_def abort_event_def
      split: sum.splits)

text \<open>
  Claim C7, amended. \<^verbatim>\<open>fetch\<close> reads the signal at entry, immediately before the
  issue call and immediately before the status call. An active signal at entry or
  before the issue call gives the cancellation error and no issue call; an active
  signal before the status call gives the cancellation error and no status call.
  Before the body call the signal is not read: when the status call has resolved,
  the body call is made and the outcome is not the cancellation error. A signal that
  becomes active while the status call is awaited makes the listener send one cancel
  call for the handle, right after the status call: when the status call resolves all
  the same, the body call follows it, and when the status call rejects, \<^verbatim>\<open>fetch\<close>
  rejects with the payload of the engine. A signal that becomes active while the body
  call is awaited makes the listener send one cancel call for the handle after the
  body call.
\<close>

theorem fetch_signal_checks:
  "(signal_aborted (init_signal init) 0 \<longrightarrow>
      fetch h eng input init options = ([], Inl (Error ERROR_REQUEST_CANCELLED)))
   \<and> (new_Request h input init = Inr req \<and> req_arrayBuffer req = Inr buffer
        \<and> signal_aborted (init_signal init) 1 \<longrightarrow>
      snd (fetch h eng input init options) = Inl (Error ERROR_REQUEST_CANCELLED)
      \<and> (\<forall>cfg. Fetch cfg \<notin> set (fst (fetch h eng input init options))))
   \<and> (new_Request h input init = Inr req \<and> req_arrayBuffer req = Inr buffer
        \<and> plugin_http_fetch eng \<lparr> cfg_method = req_method req, cfg_url = req_url req,
               cfg_headers = mappedHeaders req, cfg_data = request_data buffer,
               cfg_options = options \<rparr> = Inr rid
        \<and> signal_aborted (init_signal init) 2 \<longrightarrow>
      snd (fetch h eng input init options) = Inl (Error ERROR_REQUEST_CANCELLED)
      \<and> (\<forall>rid'. Fetch_send rid' \<notin> set (fst (fetch h eng input init options))))
   \<and> (new_Request h input init = Inr req \<and> req_arrayBuffer req = Inr buffer
        \<and> plugin_http_fetch eng \<lparr> cfg_method = req_method req, cfg_url = req_url req,
               cfg_headers = mappedHeaders req, cfg_data = request_data buffer,
               cfg_options = options \<rparr> = Inr rid
        \<and> \<not> signal_aborted (init_signal init) 2
        \<and> plugin_http_fetch_send eng rid = Inr r \<longrightarrow>
      Fetch_read_body (fsr_rid r) \<in> set (fst (fetch h eng input init options))
      \<and> snd (fetch h eng input init options) \<noteq> Inl (Error ERROR_REQUEST_CANCELLED))
   \<and> (new_Request h input init = Inr req \<and> req_arrayBuffer req = Inr buffer
        \<and> plugin_http_fetch eng \<lparr> cfg_method = req_method req, cfg_url = req_url req,
               cfg_headers = mappedHeaders req, cfg_data = request_data buffer,
               cfg_options = options \<rparr> = Inr rid
        \<and> init_signal init = Some s \<and> fires s = Some 3
        \<and> plugin_http_fetch_send eng rid = Inr r \<longrightarrow>
      fst (fetch h eng input init options) =
        [Fetch \<lparr> cfg_method = req_method req, cfg_url = req_url req,
               cfg_headers = mappedHeaders req, cfg_data = request_data buffer,
               cfg_options = options \<rparr>, Fetch_send rid, Fetch_cancel rid, Fetch_read_body (fsr_rid r)])
   \<and> (new_Request h input init = Inr req \<and> req_arrayBuffer req = Inr buffer
        \<and> plugin_http_fetch eng \<lparr> cfg_method = req_method req, cfg_url = req_url req,
               cfg_headers = mappedHeaders req, cfg_data = request_data buffer,
               cfg_options = options \<rparr> = Inr rid
        \<and> init_signal init = Some s \<and> fires s = Some 3
        \<and> plugin_http_fetch_send eng rid = Inl e \<longrightarrow>
      fetch h eng input init options =
        ([Fetch \<lparr> cfg_method = req_method req, cfg_url = req_url req,
               cfg_headers = mappedHeaders req, cfg_data = request_data buffer,
               cfg_options = options \<rparr>, Fetch_send rid, Fetch_cancel rid], Inl (Rejected e)))
   \<and> (new_Request h input init = Inr req \<and> req_arrayBuffer req = Inr buffer
        \<and> plugin_http_fetch eng \<lparr> cfg_method = req_method req, cfg_url = req_url req,
               cfg_headers = mappedHeaders req, cfg_data = request_data buffer,
               cfg_options = options \<rparr> = Inr rid
        \<and> init_signal init = Some s \<and> fires s = Some 4
        \<and> plugin_http_fetch_send eng rid = Inr r \<longrightarrow>
      fst (fetch h eng input init options) =
        [Fetch \<lparr> cfg_method = req_method req, cfg_url = req_url req,
               cfg_headers = mappedHeaders req, cfg_data = request_data buffer,
               cfg_options = options \<rparr>, Fetch_send rid, Fetch_read_body (fsr_rid r), Fetch_cancel rid])"
proof (intro conjI impI)
  assume "signal_aborted (init_signal init) 0"
  then show "fetch h eng input init options = ([], Inl (Error ERROR_REQUEST_CANCELLED))"
    by (rule fetch_aborted_0)
next
  assume a: "new_Request h input init = Inr req \<and> req_arrayBuffer req = Inr buffer
        \<and> signal_aborted (init_signal init) 1"
  then have "fetch h eng input init options = ([], Inl (Error ERROR_REQUEST_CANCELLED))"
    using fetch_aborted_1 by blast
  then show "snd (fetch h eng input init options) = Inl (Error ERROR_REQUEST_CANCELLED)"
    and "\<forall>cfg. Fetch cfg \<notin> set (fst (fetch h eng input init options))"
    by simp_all
next
  assume a: "new_Request h input init = Inr req \<and> req_arrayBuffer req = Inr buffer
        \<and> plugin_http_fetch eng \<lparr> cfg_method = req_method req, cfg_url = req_url req,
               cfg_headers = mappedHeaders req, cfg_data = request_data buffer,
               cfg_options = options \<rparr> = Inr rid
        \<and> signal_aborted (init_signal init) 2"
  have "fetch h eng input init options = ([], Inl (Error ERROR_REQUEST_CANCELLED))
      \<or> fetch h eng input init options =
           ([Fetch \<lparr> cfg_method = req_method req, cfg_url = req_url req,
               cfg_headers = mappedHeaders req, cfg_data = request_data buffer,
               cfg_options = options \<rparr>, Fetch_cancel rid], Inl (Error ERROR_REQUEST_CANCELLED))"
  proof (cases "signal_aborted (init_signal init) 1")
    case True
    then show ?thesis using a fetch_aborted_1 by blast
  next
    case False
    then show ?thesis using a fetch_aborted_2 by blast
  qed
  then show "snd (fetch h eng input init options) = Inl (Error ERROR_REQUEST_CANCELLED)"
    and "\<forall>rid'. Fetch_send rid' \<notin> set (fst (fetch h eng input init options))"
    by auto
next
  assume a: "new_Request h input init = Inr req \<and> req_arrayBuffer req = Inr buffer
        \<and> plugin_http_fetch eng \<lparr> cfg_method = req_method req, cfg_url = req_url req,
               cfg_headers = mappedHeaders req, cfg_data = request_data buffer,
               cfg_options = options \<rparr> = Inr rid
        \<and> \<not> signal_aborted (init_signal init) 2
        \<and> plugin_http_fetch_send eng rid = Inr r"
  then show "Fetch_read_body (fsr_rid r) \<in> set (fst (fetch h eng input init options))"
    and "snd (fetch h eng input init options) \<noteq> Inl (Error ERROR_REQUEST_CANCELLED)"
    using fetch_after_send [of h input init req buffer eng options rid r] by simp_all
next
  assume "new_Request h input init = Inr req \<and> req_arrayBuffer req = Inr buffer
        \<and> plugin_http_fetch eng \<lparr> cfg_method = req_method req, cfg_url = req_url req,
               cfg_headers = mappedHeaders req, cfg_data = request_data buffer,
               cfg_options = options \<rparr> = Inr rid
        \<and> init_signal init = Some s \<and> fires s = Some 3
        \<and> plugin_http_fetch_send eng rid = Inr r"
  then show "fst (fetch h eng input init options) =
        [Fetch \<lparr> cfg_method = req_method req, cfg_url = req_url req,
               cfg_headers = mappedHeaders req, cfg_data = request_data buffer,
               cfg_options = options \<rparr>, Fetch_send rid, Fetch_cancel rid, Fetch_read_body (fsr_rid r)]"
    using fetch_listener_3_resolved [of h input init req buffer eng options rid s r] by simp
next
  assume "new_Request h input init = Inr req \<and> req_arrayBuffer req = Inr buffer
        \<and> plugin_http_fetch eng \<lparr> cfg_method = req_method req, cfg_url = req_url req,
               cfg_headers = mappedHeaders req, cfg_data = request_data buffer,
               cfg_options = options \<rparr> = Inr rid
        \<and> init_signal init = Some s \<and> fires s = Some 3
        \<and> plugin_http_fetch_send eng rid = Inl e"
  then show "fetch h eng input init options =
        ([Fetch \<lparr> cfg_method = req_method req, cfg_url = req_url req,
               cfg_headers = mappedHeaders req, cfg_data = request_data buffer,
               cfg_options = options \<rparr>, Fetch_send rid, Fetch_cancel rid], Inl (Rejected e))"
    using fetch_listener_3_rejected [of h input init req buffer eng options rid s e] by simp
next
  assume "new_Request h input init = Inr req \<and> req_arrayBuffer req = Inr buffer
        \<and> plugin_http_fetch eng \<lparr> cfg_method = req_method req, cfg_url = req_url req,
               cfg_headers = mappedHeaders req, cfg_data = request_data buffer,
               cfg_options = options \<rparr> = Inr rid
        \<and> init_signal init = Some s \<and> fires s = Some 4
        \<and> plugin_http_fetch_send eng rid = Inr r"
  then show "fst (fetch h eng input init options) =
        [Fetch \<lparr> cfg_method = req_method req, cfg_url = req_url req,
               cfg_headers = mappedHeaders req, cfg_data = request_data buffer,
               cfg_options = options \<rparr>, Fetch_send rid, Fetch_read_body (fsr_rid r), Fetch_cancel rid]"
    using fetch_listener_4 [of h input init req buffer eng options rid s r] by simp
qed

theorem fetch_signal_checks_witness:
  "signal_aborted (init_signal (example_signal (Some 0))) 0
   \<and> fetch example_host example_engine (Input_Request example_request) (example_signal (Some 0)) None
       = ([], Inl (Error ''Request canceled''))
   \<and> new_Request example_host (Input_Request example_request) (example_signal (Some 1))
       = Inr example_request
   \<and> req_arrayBuffer example_request = Inr [104, 105]
   \<and> signal_aborted (init_signal (example_signal (Some 1))) 1
   \<and> fetch example_host example_engine (Input_Request example_request) (example_signal (Some 1)) None
       = ([], Inl (Error ''Request canceled''))
   \<and> plugin_http_fetch example_engine example_cfg = Inr 1
   \<and> signal_aborted (init_signal (example_signal (Some 2))) 2
   \<and> fetch example_host example_engine (Input_Request example_request) (example_signal (Some 2)) None
       = ([Fetch example_cfg, Fetch_cancel 1], Inl (Error ''Request canceled''))
   \<and> \<not> signal_aborted (init_signal (example_signal (Some 3))) 2
   \<and> plugin_http_fetch_send example_engine 1 = Inr example_send_response
   \<and> fsr_rid example_send_response = 2
   \<and> snd (fetch example_host example_engine (Input_Request example_request)
         (example_signal (Some 3)) None) \<noteq> Inl (Error ''Request canceled'')
   \<and> init_signal (example_signal (Some 3)) = Some (AbortSignal (Some 3))
   \<and> fires (AbortSignal (Some 3)) = Some 3
   \<and> fst (fetch example_host example_engine (Input_Request example_request)
         (example_signal (Some 3)) None)
       = [Fetch example_cfg, Fetch_send 1, Fetch_cancel 1, Fetch_read_body 2]
   \<and> plugin_http_fetch_send example_engine_send_rejected 1 = Inl ''Request canceled''
   \<and> fetch example_host example_engine_send_rejected (Input_Request example_request)
         (example_signal (Some 3)) None
       = ([Fetch example_cfg, Fetch_send 1, Fetch_cancel 1], Inl (Rejected ''Request canceled''))
   \<and> init_signal (example_signal (Some 4)) = Some (AbortSignal (Some 4))
   \<and> fires (AbortSignal (Some 4)) = Some 4
   \<and> fst (fetch example_host example_engine (Input_Request example_request)
         (example_signal (Some 4)) None)
       = [Fetch example_cfg, Fetch_send 1, Fetch_read_body 2, Fetch_cancel 1]"
  using fetch_signal_checks [where init = "example_signal (Some 0)" and h = example_host
      and input = "Input_Request example_request" and eng = example_engine and options = None]
    fetch_signal_checks [where init = "example_signal (Some 1)" and h = example_host
      and input = "Input_Request example_request" and req = example_request
      and buffer = "[104, 105]" and eng = example_engine and options = None]
    fetch_signal_checks [where init = "example_signal (Some 2)" and h = example_host
      and input = "Input_Request example_request" and req = example_request
      and buffer = "[104, 105]" and eng = example_engine and options = None and rid = 1]
    fetch_signal_checks [where init = "example_signal (Some 3)" and h = example_host
      and input = "Input_Request example_request" and req = example_request
      and buffer = "[104, 105]" and eng = example_engine and options = None and rid = 1
      and r = example_send_response and s = "AbortSignal (Some 3)"]
    fetch_signal_checks [where init = "example_signal (Some 3)" and h = example_host
      and input = "Input_Request example_request" and req = example_request
      and buffer = "[104, 105]" and eng = example_engine_send_rejected and options = None
      and rid = 1 and e = "''Request canceled''" and s = "AbortSignal (Some 3)"]
    fetch_signal_checks [where init = "example_signal (Some 4)" and h = example_host
      and input = "Input_Request example_request" and req = example_request
      and buffer = "[104, 105]" and eng = example_engine and options = None and rid = 1
      and r = example_send_response and s = "AbortSignal (Some 4)"]
  by (simp add: ex_defs fetch_def)

subsection \<open>The order of the transmitted headers\<close>

text \<open>
  Claim C8, as stated, fails for the entries of the caller. The caller below gives the
  headers \<^verbatim>\<open>x-b: 1\<close>, \<^verbatim>\<open>x-a: 1\<close>, \<^verbatim>\<open>x-a: 2\<close> in this order; the host's
  \<^verbatim>\<open>Request\<close> yields them from \<^verbatim>\<open>entries()\<close> sorted by name and with the two
  values of \<^verbatim>\<open>x-a\<close> combined, and \<^verbatim>\<open>fetch\<close> transmits what \<^verbatim>\<open>entries()\<close>
  yields: two pairs, \<^verbatim>\<open>x-a\<close> first.
\<close>

theorem fetch_caller_header_order_lost:
  "init_headers example_init_unsorted = Some [(''x-b'', ''1''), (''x-a'', ''1''), (''x-a'', ''2'')]
   \<and> fst (fetch example_host example_engine (Input_URL ''http://h/data.json'')
             (Some example_init_unsorted) None)
       = [Fetch \<lparr> cfg_method = ''GET'', cfg_url = ''http://h/data.json'',
                   cfg_headers = [(''x-a'', ''1, 2''), (''x-b'', ''1'')],
                   cfg_data = None, cfg_options = None \<rparr>,
          Fetch_send 1, Fetch_read_body 2]
   \<and> [(''x-a'', ''1, 2''), (''x-b'', ''1'')]
       \<noteq> [(''x-b'', ''1''), (''x-a'', ''1''), (''x-a'', ''2'')]"
  by (simp add: ex_defs fetch_def)

text \<open>
  Claim C8, amended. The header list of every issue call preserves, as an ordered
  list of pairs, the entries that \<^verbatim>\<open>req.headers.entries()\<close> yields for the
  constructed request: it has the same length, the same values at the same positions
  and the names at the same positions (without the reserved prefix where an entry
  carries it), and when no entry carries the reserved prefix it is the list of the
  entries itself.
\<close>

theorem fetch_headers_order_preserved:
  assumes "Fetch cfg \<in> set (fst (fetch h eng input init options))"
  shows "\<exists>req. new_Request h input init = Inr req
           \<and> length (cfg_headers cfg) = length (req_headers_entries req)
           \<and> map snd (cfg_headers cfg) = map snd (req_headers_entries req)
           \<and> map fst (cfg_headers cfg) =
               map (\<lambda>key. if startsWith key UNSAFE_HEADER_PREFIX
                           then substring key (length UNSAFE_HEADER_PREFIX) else key)
                   (map fst (req_headers_entries req))
           \<and> ((\<forall>key \<in> fst ` set (req_headers_entries req). \<not> startsWith key UNSAFE_HEADER_PREFIX)
                \<longrightarrow> cfg_headers cfg = req_headers_entries req)"
proof -
  obtain req buffer where req: "new_Request h input init = Inr req"
    and cfg: "cfg = \<lparr> cfg_method = req_method req, cfg_url = req_url req,
                   cfg_headers = mappedHeaders req, cfg_data = request_data buffer,
                   cfg_options = options \<rparr>"
    using fetch_calls_Fetch [OF assms] by blast
  have h: "cfg_headers cfg = mappedHeaders req"
    by (simp add: cfg)
  have same: "mappedHeaders req = req_headers_entries req"
    if "\<forall>key \<in> fst ` set (req_headers_entries req). \<not> startsWith key UNSAFE_HEADER_PREFIX"
    unfolding mappedHeaders_map using that by (intro map_idI) auto
  show ?thesis
    using req same by (auto simp: h mappedHeaders_map)
qed

theorem fetch_headers_order_preserved_witness:
  "Fetch example_cfg
     \<in> set (fst (fetch example_host example_engine (Input_URL ''http://h/data.json'')
                   (Some example_init) None))
   \<and> new_Request example_host (Input_URL ''http://h/data.json'') (Some example_init)
       = Inr example_request
   \<and> map snd (cfg_headers example_cfg) = [''*/*'', ''http://o'', ''1'', ''2'']
   \<and> map snd (req_headers_entries example_request) = [''*/*'', ''http://o'', ''1'', ''2'']
   \<and> map fst (req_headers_entries example_request)
       = [''accept'', ''http_unsafe_header_origin'', ''http_unsafe_header_x-a'', ''x-a'']
   \<and> map fst (cfg_headers example_cfg) = [''accept'', ''origin'', ''x-a'', ''x-a'']
   \<and> Fetch \<lparr> cfg_method = ''GET'', cfg_url = ''http://h/data.json'',
               cfg_headers = [(''x-a'', ''1, 2''), (''x-b'', ''1'')],
               cfg_data = None, cfg_options = None \<rparr>
     \<in> set (fst (fetch example_host example_engine (Input_URL ''http://h/data.json'')
                   (Some example_init_unsorted) None))
   \<and> new_Request example_host (Input_URL ''http://h/data.json'') (Some example_init_unsorted)
       = Inr \<lparr> req_method = ''GET'', req_url = ''http://h/data.json'',
               req_headers_entries = [(''x-a'', ''1, 2''), (''x-b'', ''1'')],
               req_arrayBuffer = Inr [] \<rparr>
   \<and> \<not> startsWith ''x-a'' UNSAFE_HEADER_PREFIX \<and> \<not> startsWith ''x-b'' UNSAFE_HEADER_PREFIX"
  using fetch_headers_order_preserved [where cfg = example_cfg and h = example_host
      and input = "Input_URL ''http://h/data.json''" and init = "Some example_init"
      and eng = example_engine and options = None]
    fetch_headers_order_preserved [where h = example_host
      and cfg = "\<lparr> cfg_method = ''GET'', cfg_url = ''http://h/data.json'',
               cfg_headers = [(''x-a'', ''1, 2''), (''x-b'', ''1'')],
               cfg_data = None, cfg_options = None \<rparr>"
      and input = "Input_URL ''http://h/data.json''" and init = "Some example_init_unsorted"
      and eng = example_engine and options = None]
  by (simp add: ex_defs fetch_def)

subsection \<open>The cancellation error\<close>

text \<open>A run that ends with an error object of the binding has ended at one of its checks.\<close>

lemma fetch_Error:
  assumes "snd (fetch h eng input init options) = Inl (Error m)"
  shows "m = ERROR_REQUEST_CANCELLED \<and> signal_aborted (init_signal init) 2
         \<and> (fst (fetch h eng input init options) = []
            \<or> (\<exists>cfg rid. plugin_http_fetch eng cfg = Inr rid
                  \<and> fst (fetch h eng input init options) = [Fetch cfg, Fetch_cancel rid]))"
proof (cases "signal_aborted (init_signal init) 0")
  case True
  then have "signal_aborted (init_signal init) 2"
    using signal_aborted_mono [of "init_signal init" 0 2] by simp
  then show ?thesis
    using True assms by (simp add: fetch_def)
next
  case n0: False
  show ?thesis
  proof (cases "signal_aborted (init_signal init) 1")
    case True
    then have "signal_aborted (init_signal init) 2"
      using signal_aborted_mono [of "init_signal init" 1 2] by simp
    then show ?thesis
      using True n0 assms by (auto simp: fetch_def Let_def split: sum.splits)
  next
    case False
    then show ?thesis
      using n0 assms by (auto simp: fetch_def Let_def split: sum.splits if_splits)
  qed
qed

text \<open>A run that ends with a payload has received it from the engine.\<close>

lemma fetch_Rejected:
  assumes "snd (fetch h eng input init options) = Inl (Rejected p)"
  shows "(\<exists>cfg. plugin_http_fetch eng cfg = Inl p)
         \<or> (\<exists>rid. plugin_http_fetch_send eng rid = Inl p)
         \<or> (\<exists>rid. plugin_http_fetch_read_body eng rid = Inl p)"
  using assms by (auto simp: fetch_def Let_def split: sum.splits if_splits)

text \<open>
  Claim C9. Whenever \<^verbatim>\<open>fetch\<close> fails with an error object that the binding has
  created, its message is \<^verbatim>\<open>Request canceled\<close>, the signal is active at the last of
  the three checks at the latest, and no reply of the engine was a rejection: either
  no call has reached the engine, or the issue call has resolved and the cancel call
  has followed it. Whenever \<^verbatim>\<open>fetch\<close> fails with what the engine reports, that is a
  payload with which one of the three awaited commands rejected, and it is not the
  cancellation error.
\<close>

theorem fetch_cancellation_error_local:
  assumes "snd (fetch h eng input init options) = Inl e"
  shows "(\<forall>m. e = Error m \<longrightarrow>
            m = ''Request canceled'' \<and> signal_aborted (init_signal init) 2
            \<and> (fst (fetch h eng input init options) = []
               \<or> (\<exists>cfg rid. plugin_http_fetch eng cfg = Inr rid
                     \<and> fst (fetch h eng input init options) = [Fetch cfg, Fetch_cancel rid])))
       \<and> (\<forall>p. e = Rejected p \<longrightarrow>
            e \<noteq> Error ERROR_REQUEST_CANCELLED
            \<and> ((\<exists>cfg. plugin_http_fetch eng cfg = Inl p)
               \<or> (\<exists>rid. plugin_http_fetch_send eng rid = Inl p)
               \<or> (\<exists>rid. plugin_http_fetch_read_body eng rid = Inl p)))"
proof (intro conjI allI impI)
  fix m assume "e = Error m"
  then have *: "snd (fetch h eng input init options) = Inl (Error m)"
    using assms by simp
  show "m = ''Request canceled''"
    using fetch_Error [OF *] by (simp add: ERROR_REQUEST_CANCELLED_def)
  show "signal_aborted (init_signal init) 2"
    using fetch_Error [OF *] by simp
  show "fst (fetch h eng input init options) = []
        \<or> (\<exists>cfg rid. plugin_http_fetch eng cfg = Inr rid
              \<and> fst (fetch h eng input init options) = [Fetch cfg, Fetch_cancel rid])"
    using fetch_Error [OF *] by simp
next
  fix p assume "e = Rejected p"
  then show "e \<noteq> Error ERROR_REQUEST_CANCELLED" by simp
next
  fix p assume "e = Rejected p"
  then have "snd (fetch h eng input init options) = Inl (Rejected p)"
    using assms by simp
  then show "(\<exists>cfg. plugin_http_fetch eng cfg = Inl p)
        \<or> (\<exists>rid. plugin_http_fetch_send eng rid = Inl p)
        \<or> (\<exists>rid. plugin_http_fetch_read_body eng rid = Inl p)"
    by (rule fetch_Rejected)
qed

theorem fetch_cancellation_error_local_witness:
  "snd (fetch example_host example_engine (Input_Request example_request) (example_signal (Some 2)) None)
     = Inl (Error ''Request canceled'')
   \<and> signal_aborted (init_signal (example_signal (Some 2))) 2
   \<and> snd (fetch example_host example_engine (Input_string ''http://denied/'') None None)
     = Inl (Rejected ''url not allowed on the configured scope'')
   \<and> (\<exists>cfg. plugin_http_fetch example_engine cfg = Inl ''url not allowed on the configured scope'')"
  using fetch_cancellation_error_local [where h = example_host and eng = example_engine
      and input = "Input_Request example_request" and init = "example_signal (Some 2)"
      and options = None and e = "Error ''Request canceled''"]
    fetch_cancellation_error_local [where h = example_host and eng = example_engine
      and input = "Input_string ''http://denied/''" and init = None
      and options = None and e = "Rejected ''url not allowed on the configured scope''"]
  by (simp add: ex_defs fetch_def)

subsection \<open>An empty body reply\<close>

lemma response_body_empty:
  "body = ArrayBuffer [] \<or> body = Array [] \<Longrightarrow> response_body body = None"
  by (auto simp: response_body_def)

lemma fetch_empty_body_null_argument:
  assumes "fetch h eng input init options = (calls, Inr res)"
    and "Fetch_read_body brid \<in> set calls"
    and "plugin_http_fetch_read_body eng brid = Inr body"
    and "body = ArrayBuffer [] \<or> body = Array []"
  shows "\<exists>rid r res0. plugin_http_fetch_send eng rid = Inr r \<and> brid = fsr_rid r
           \<and> new_Response h None (fsr_status r) (fsr_statusText r) = Inr res0
           \<and> res = res0 \<lparr> res_url := fsr_url r, res_headers := res_headers res \<rparr>"
proof -
  obtain req buffer rid r body' res0 hs where
    send: "plugin_http_fetch_send eng rid = Inr r"
    and body': "plugin_http_fetch_read_body eng (fsr_rid r) = Inr body'"
    and res0: "new_Response h (response_body body') (fsr_status r) (fsr_statusText r) = Inr res0"
    and calls: "calls = [Fetch \<lparr> cfg_method = req_method req, cfg_url = req_url req,
                         cfg_headers = mappedHeaders req, cfg_data = request_data buffer,
                         cfg_options = options \<rparr>, Fetch_send rid]
                      @ listener (init_signal init) rid 3
                      @ [Fetch_read_body (fsr_rid r)] @ listener (init_signal init) rid 4"
    and res: "res = res0 \<lparr> res_url := fsr_url r, res_headers := hs \<rparr>"
    using fetch_success [OF assms(1)] by blast
  have brid: "brid = fsr_rid r"
    using assms(2) by (simp add: calls Fetch_read_body_listener)
  then have "body' = body"
    using body' assms(3) by simp
  then have "response_body body' = None"
    using assms(4) by (simp add: response_body_empty)
  then have "new_Response h None (fsr_status r) (fsr_statusText r) = Inr res0"
    using res0 by simp
  moreover have "res = res0 \<lparr> res_url := fsr_url r, res_headers := res_headers res \<rparr>"
    by (simp add: res)
  ultimately show ?thesis
    using send brid by blast
qed

lemma fetch_empty_replies_equal:
  "fetch h (eng \<lparr> plugin_http_fetch_read_body := (\<lambda>rid. Inr (ArrayBuffer [])) \<rparr>) input init options
   = fetch h (eng \<lparr> plugin_http_fetch_read_body := (\<lambda>rid. Inr (Array [])) \<rparr>) input init options"
  by (simp add: fetch_def Let_def response_body_def split: sum.split)

text \<open>
  Claim C10. When \<^verbatim>\<open>fetch\<close> returns a response and the reply to its body call is an
  \<^verbatim>\<open>ArrayBuffer\<close> of length 0 or an array of length 0, the response is the object
  that the host constructs from \<^verbatim>\<open>null\<close> as body (with url and headers replaced);
  and the two empty replies give the same run of \<^verbatim>\<open>fetch\<close>, so a caller cannot
  tell them apart, nor tell either from a response without a body.
\<close>

theorem fetch_empty_body_is_null:
  "(fetch h eng input init options = (calls, Inr res)
      \<and> Fetch_read_body brid \<in> set calls
      \<and> plugin_http_fetch_read_body eng brid = Inr body
      \<and> (body = ArrayBuffer [] \<or> body = Array [])
    \<longrightarrow> (\<exists>rid r res0. plugin_http_fetch_send eng rid = Inr r \<and> brid = fsr_rid r
           \<and> new_Response h None (fsr_status r) (fsr_statusText r) = Inr res0
           \<and> res = res0 \<lparr> res_url := fsr_url r, res_headers := res_headers res \<rparr>))
   \<and> fetch h (eng \<lparr> plugin_http_fetch_read_body := (\<lambda>rid. Inr (ArrayBuffer [])) \<rparr>)
         input init options
     = fetch h (eng \<lparr> plugin_http_fetch_read_body := (\<lambda>rid. Inr (Array [])) \<rparr>)
         input init options"
  using fetch_empty_body_null_argument [of h eng input init options calls res brid body]
    fetch_empty_replies_equal [of h eng input init options]
  by blast

theorem fetch_empty_body_is_null_witness:
  "fetch example_host (example_engine_body (ArrayBuffer [])) (Input_Request example_request) None None
     = ([Fetch example_cfg, Fetch_send 1, Fetch_read_body 2], Inr (example_response None))
   \<and> plugin_http_fetch_read_body (example_engine_body (ArrayBuffer [])) 2 = Inr (ArrayBuffer [])
   \<and> (\<exists>rid r res0. plugin_http_fetch_send (example_engine_body (ArrayBuffer [])) rid = Inr r
          \<and> new_Response example_host None (fsr_status r) (fsr_statusText r) = Inr res0
          \<and> res_body res0 = None)
   \<and> fetch example_host (example_engine_body (Array [])) (Input_Request example_request) None None
     = ([Fetch example_cfg, Fetch_send 1, Fetch_read_body 2], Inr (example_response None))"
  using fetch_empty_body_is_null [where h = example_host
      and eng = "example_engine_body (ArrayBuffer [])"
      and input = "Input_Request example_request" and init = None and options = None
      and calls = "[Fetch example_cfg, Fetch_send 1, Fetch_read_body 2]"
      and res = "example_response None"
      and brid = 2 and body = "ArrayBuffer []"]
  by (simp add: ex_defs fetch_def)

end
